theory Spec2Isabelle
  imports Main
begin

section \<open>Data model of \<^verbatim>\<open>src/server/index.js\<close>\<close>

text \<open>
  The server keeps two process-wide objects, \<^verbatim>\<open>userSocketMap\<close>
  (socket id to \<^verbatim>\<open>{ username, roomId }\<close>) and \<^verbatim>\<open>roomsFiles\<close> (room id to an array of
  \<^verbatim>\<open>{ name, content }\<close>), and relies on the transport for the membership of every
  broadcast group (\<^verbatim>\<open>io.sockets.adapter.rooms\<close>).

  Scope of the embedding. Room ids, socket ids, names, contents, cursors and timestamps
  are JavaScript strings; a file index is a JavaScript integer number (any sign); a file
  payload is an object with a name and a content.

  Both stores are plain objects (\<^verbatim>\<open>{}\<close>), so a lookup also answers for the property
  names that every object inherits from \<^verbatim>\<open>Object.prototype\<close>. The fields \<open>userSocketMap\<close>
  and \<open>roomsFiles\<close> below hold the own properties. A room id comes from the client, and
  the handlers read \<open>roomsFiles\<close> through \<open>room_lookup\<close>, which answers for the
  inherited names as well. For \<open>userSocketMap\<close> an inherited member has neither a
  \<^verbatim>\<open>username\<close> nor a \<^verbatim>\<open>roomId\<close> property, so the two expressions that read it
  (\<^verbatim>\<open>userSocketMap[id]?.username\<close> and \<^verbatim>\<open>userSocketMap[socket.id] || {}\<close>) give what they
  give for an absent entry, and the own properties decide. Its keys are socket ids, which
  the transport chooses.
\<close>

record room_file =
  name :: string
  content :: string

record participant =
  username :: string
  roomId :: string

text \<open>One entry of the \<^verbatim>\<open>clients\<close> array, \<^verbatim>\<open>{ socketId, username }\<close>. The second
  field is called \<open>clientUsername\<close> because \<open>username\<close> is the field of \<^typ>\<open>participant\<close>.\<close>

record client =
  socketId :: string
  clientUsername :: string

text \<open>The exception a handler can throw: calling \<^verbatim>\<open>push\<close> or \<^verbatim>\<open>splice\<close> on a value
  that has no such method.\<close>

datatype js_error = TypeError

text \<open>\<open>uncaught\<close> is the exception that has left a handler, if any: \<^verbatim>\<open>index.js\<close> catches
  nothing around its handlers.\<close>

record server =
  userSocketMap :: "string \<rightharpoonup> participant"
  roomsFiles :: "string \<rightharpoonup> room_file list"
  adapter_rooms :: "string \<Rightarrow> string list"
  uncaught :: "js_error option"

text \<open>Events sent by a client, with the fields each handler destructures.\<close>

datatype client_event =
  Join string string
| CodeChange string string int
| CursorChange string string string
| ChatMessage string string string string
| AddFile string room_file
| RenameFile string int string
| DeleteFile string int
| Disconnect

text \<open>Events emitted by the server, with their payloads. The payload of
  \<^verbatim>\<open>initialize-files\<close> is the value of \<^verbatim>\<open>roomsFiles[roomId]\<close>: an array of files or
  \<^verbatim>\<open>undefined\<close> (\<open>InitializeFiles\<close>), or else the member of \<^verbatim>\<open>Object.prototype\<close> that the
  room id names, which is no list of files (\<open>InitializeInherited\<close>, with the name).\<close>

datatype server_event =
  InitializeFiles "room_file list option"
| InitializeInherited string
| Joined "client list"
| CodeChanged string int
| CursorChanged string string
| ChatMessaged string string string
| FileAdded room_file int
| FileRenamed int string
| FileDeleted int
| Disconnected string "client list"

text \<open>An emission is the list of connections it is delivered to, and the event. The
  emissions of a handler are listed in the order the handler performs them.\<close>

type_synonym emission = "string list \<times> server_event"

section \<open>JavaScript primitives\<close>

text \<open>\<^verbatim>\<open>arr[i]\<close> for an integer \<open>i\<close>: the element, or \<^verbatim>\<open>undefined\<close> out of range
  (a negative index names no element).\<close>

definition at_index :: "'a list \<Rightarrow> int \<Rightarrow> 'a option" where
  "at_index xs i = (if 0 \<le> i \<and> i < int (length xs) then Some (xs ! nat i) else None)"

text \<open>\<^verbatim>\<open>arr.splice(start, deleteCount)\<close>, the array left behind: a negative start counts
  from the end and is clamped at 0, a start beyond the end is clamped at the length, and
  the number of elements removed is clamped to what is left after the start.\<close>

definition array_splice :: "int \<Rightarrow> int \<Rightarrow> 'a list \<Rightarrow> 'a list" where
  "array_splice start deleteCount xs =
     (let len = int (length xs);
          actualStart = (if start < 0 then max (len + start) 0 else min start len);
          actualDeleteCount = min (max deleteCount 0) (len - actualStart)
      in take (nat actualStart) xs @ drop (nat (actualStart + actualDeleteCount)) xs)"

text \<open>\<^verbatim>\<open>x || "Anonymous"\<close> on a string or \<^verbatim>\<open>undefined\<close>: the empty string and
  \<^verbatim>\<open>undefined\<close> are falsy.\<close>

definition or_anonymous :: "string option \<Rightarrow> string" where
  "or_anonymous x = (case x of None \<Rightarrow> ''Anonymous''
                      | Some u \<Rightarrow> if u \<noteq> [] then u else ''Anonymous'')"

text \<open>The property names that a plain object inherits from \<^verbatim>\<open>Object.prototype\<close>. Each of
  them names a function, but for \<^verbatim>\<open>__proto__\<close>, which names \<^verbatim>\<open>Object.prototype\<close> itself:
  all these values are truthy, none has a property named by an integer, and none has a
  \<^verbatim>\<open>push\<close> or a \<^verbatim>\<open>splice\<close> method.\<close>

definition object_prototype_names :: "string list" where
  "object_prototype_names =
     [''constructor'', ''__defineGetter__'', ''__defineSetter__'', ''hasOwnProperty'',
      ''__lookupGetter__'', ''__lookupSetter__'', ''isPrototypeOf'', ''propertyIsEnumerable'',
      ''toString'', ''valueOf'', ''__proto__'', ''toLocaleString'']"

text \<open>The value of \<^verbatim>\<open>roomsFiles[roomId]\<close>: the own property when there is one, else the
  inherited member when the room id names one, else \<^verbatim>\<open>undefined\<close>.\<close>

datatype room_entry = Undefined | Inherited | Files "room_file list"

definition room_lookup :: "server \<Rightarrow> string \<Rightarrow> room_entry" where
  "room_lookup s r =
     (case roomsFiles s r of
        Some fs \<Rightarrow> Files fs
      | None \<Rightarrow> if r \<in> set object_prototype_names then Inherited else Undefined)"

section \<open>The transport\<close>

text \<open>Modelled from the spec: the transport (socket.io) is a library outside the
  repository. The spec describes it as a pub/sub membership primitive: a join subscribes
  the connection to the room's broadcast group, a broadcast reaches the members of the
  group (all of them, or all but the sender), and by the time the disconnect handler runs
  the departing connection has already left every group. \<open>adapter_rooms s r\<close> is
  \<^verbatim>\<open>[...(io.sockets.adapter.rooms.get(r) || [])]\<close>, a set in insertion order.\<close>

definition socket_join :: "string \<Rightarrow> string \<Rightarrow> server \<Rightarrow> server" where
  "socket_join sid r s =
     s\<lparr>adapter_rooms := (adapter_rooms s)
          (r := (if sid \<in> set (adapter_rooms s r) then adapter_rooms s r
                 else adapter_rooms s r @ [sid]))\<rparr>"

definition leave_all :: "string \<Rightarrow> server \<Rightarrow> server" where
  "leave_all sid s = s\<lparr>adapter_rooms := (\<lambda>r. removeAll sid (adapter_rooms s r))\<rparr>"

definition socket_emit :: "string \<Rightarrow> server_event \<Rightarrow> emission" where
  "socket_emit sid ev = ([sid], ev)"

definition io_to_emit :: "server \<Rightarrow> string \<Rightarrow> server_event \<Rightarrow> emission" where
  "io_to_emit s r ev = (adapter_rooms s r, ev)"

definition socket_to_emit :: "server \<Rightarrow> string \<Rightarrow> string \<Rightarrow> server_event \<Rightarrow> emission" where
  "socket_to_emit s sid r ev = (filter (\<lambda>i. i \<noteq> sid) (adapter_rooms s r), ev)"

section \<open>The handlers\<close>

text \<open>The roster expression that the join and the disconnect handlers both compute:
  the members of the group, each with \<^verbatim>\<open>userSocketMap[id]?.username || "Anonymous"\<close>.\<close>

definition clients :: "server \<Rightarrow> string \<Rightarrow> client list" where
  "clients s r =
     map (\<lambda>i. \<lparr>socketId = i,
               clientUsername = or_anonymous (map_option username (userSocketMap s i))\<rparr>)
       (adapter_rooms s r)"

definition on_join :: "string \<Rightarrow> string \<Rightarrow> string \<Rightarrow> server \<Rightarrow> server \<times> emission list" where
  "on_join sid r u s =
     (let s1 = s\<lparr>userSocketMap := (userSocketMap s)(sid \<mapsto> \<lparr>username = u, roomId = r\<rparr>)\<rparr>;
          s2 = socket_join sid r s1;
          s3 = (if room_lookup s2 r = Undefined
                then s2\<lparr>roomsFiles := (roomsFiles s2)(r \<mapsto> [\<lparr>name = ''main.py'', content = ''''\<rparr>])\<rparr>
                else s2)
      in (s3, [socket_emit sid
                 (case room_lookup s3 r of
                    Undefined \<Rightarrow> InitializeFiles None
                  | Inherited \<Rightarrow> InitializeInherited r
                  | Files fs \<Rightarrow> InitializeFiles (Some fs)),
               io_to_emit s3 r (Joined (clients s3 r))]))"

definition on_code_change ::
  "string \<Rightarrow> string \<Rightarrow> string \<Rightarrow> int \<Rightarrow> server \<Rightarrow> server \<times> emission list" where
  "on_code_change sid r code fileIndex s =
     (let s1 = (case room_lookup s r of
                  Undefined \<Rightarrow> s
                | Inherited \<Rightarrow> s
                | Files fs \<Rightarrow>
                    (case at_index fs fileIndex of
                       None \<Rightarrow> s
                     | Some f \<Rightarrow>
                         s\<lparr>roomsFiles := (roomsFiles s)
                              (r \<mapsto> fs[nat fileIndex := f\<lparr>content := code\<rparr>])\<rparr>))
      in (s1, [socket_to_emit s1 sid r (CodeChanged code fileIndex)]))"

definition on_cursor_change ::
  "string \<Rightarrow> string \<Rightarrow> string \<Rightarrow> string \<Rightarrow> server \<Rightarrow> server \<times> emission list" where
  "on_cursor_change sid r u cursor s = (s, [socket_to_emit s sid r (CursorChanged u cursor)])"

definition on_chat_message ::
  "string \<Rightarrow> string \<Rightarrow> string \<Rightarrow> string \<Rightarrow> string \<Rightarrow> server \<Rightarrow> server \<times> emission list" where
  "on_chat_message sid r u msg timestamp s = (s, [io_to_emit s r (ChatMessaged u msg timestamp)])"

text \<open>The add-file handler. An inherited member is truthy, so no array is created for
  it, and the call of its \<^verbatim>\<open>push\<close> throws before anything is stored or emitted.\<close>

definition on_add_file :: "string \<Rightarrow> string \<Rightarrow> room_file \<Rightarrow> server \<Rightarrow> server \<times> emission list" where
  "on_add_file sid r f s =
     (case room_lookup s r of
        Inherited \<Rightarrow> (s\<lparr>uncaught := Some TypeError\<rparr>, [])
      | entry \<Rightarrow>
          (let fs0 = (case entry of Files fs \<Rightarrow> fs | _ \<Rightarrow> []);
               fs1 = fs0 @ [f];
               s1 = s\<lparr>roomsFiles := (roomsFiles s)(r \<mapsto> fs1)\<rparr>;
               fileIndex = int (length fs1) - 1
           in (s1, [io_to_emit s1 r (FileAdded f fileIndex)])))"

definition on_rename_file ::
  "string \<Rightarrow> string \<Rightarrow> int \<Rightarrow> string \<Rightarrow> server \<Rightarrow> server \<times> emission list" where
  "on_rename_file sid r fileIndex newName s =
     (case room_lookup s r of
        Undefined \<Rightarrow> (s, [])
      | Inherited \<Rightarrow> (s, [])
      | Files fs \<Rightarrow>
          (case at_index fs fileIndex of
             None \<Rightarrow> (s, [])
           | Some f \<Rightarrow>
               (let s1 = s\<lparr>roomsFiles := (roomsFiles s)
                             (r \<mapsto> fs[nat fileIndex := f\<lparr>name := newName\<rparr>])\<rparr>
                in (s1, [io_to_emit s1 r (FileRenamed fileIndex newName)]))))"

text \<open>The delete-file handler. An inherited member passes the guard, and the call of
  its \<^verbatim>\<open>splice\<close> throws before anything is stored or emitted.\<close>

definition on_delete_file :: "string \<Rightarrow> string \<Rightarrow> int \<Rightarrow> server \<Rightarrow> server \<times> emission list" where
  "on_delete_file sid r fileIndex s =
     (case room_lookup s r of
        Undefined \<Rightarrow> (s, [])
      | Inherited \<Rightarrow> (s\<lparr>uncaught := Some TypeError\<rparr>, [])
      | Files fs \<Rightarrow>
          (let s1 = s\<lparr>roomsFiles := (roomsFiles s)(r \<mapsto> array_splice fileIndex 1 fs)\<rparr>
           in (s1, [io_to_emit s1 r (FileDeleted fileIndex)])))"

text \<open>The disconnect handler: \<^verbatim>\<open>roomId\<close> is \<^verbatim>\<open>undefined\<close> when the connection has no
  registry entry, and \<^verbatim>\<open>if (roomId)\<close> is also false for the empty string.\<close>

definition on_disconnect :: "string \<Rightarrow> server \<Rightarrow> server \<times> emission list" where
  "on_disconnect sid s =
     (let rid = map_option roomId (userSocketMap s sid);
          s1 = s\<lparr>userSocketMap := (userSocketMap s)(sid := None)\<rparr>
      in (case rid of
            None \<Rightarrow> (s1, [])
          | Some r \<Rightarrow>
              if r \<noteq> [] then (s1, [io_to_emit s1 r (Disconnected sid (clients s1 r))])
              else (s1, [])))"

text \<open>One event of connection \<open>sid\<close>. The transport has removed a departing connection
  from every group before its disconnect handler runs.\<close>

fun handle :: "string \<Rightarrow> client_event \<Rightarrow> server \<Rightarrow> server \<times> emission list" where
  "handle sid (Join r u) s = on_join sid r u s"
| "handle sid (CodeChange r code fileIndex) s = on_code_change sid r code fileIndex s"
| "handle sid (CursorChange r u cursor) s = on_cursor_change sid r u cursor s"
| "handle sid (ChatMessage r u msg timestamp) s = on_chat_message sid r u msg timestamp s"
| "handle sid (AddFile r f) s = on_add_file sid r f s"
| "handle sid (RenameFile r fileIndex newName) s = on_rename_file sid r fileIndex newName s"
| "handle sid (DeleteFile r fileIndex) s = on_delete_file sid r fileIndex s"
| "handle sid Disconnect s = on_disconnect sid (leave_all sid s)"

text \<open>A run of the server: the events are handled one after the other, each to
  completion, and the emissions are collected in order. Once an exception has left a
  handler, no further event is handled.\<close>

fun run :: "(string \<times> client_event) list \<Rightarrow> server \<Rightarrow> server \<times> emission list" where
  "run [] s = (s, [])"
| "run ((sid, ev) # evs) s =
     (if uncaught s \<noteq> None then (s, [])
      else (let (s1, out1) = handle sid ev s; (s2, out2) = run evs s1 in (s2, out1 @ out2)))"

text \<open>The server at start-up: neither store has an own property, no group has a member,
  no exception has been thrown.\<close>

definition init :: server where
  "init = \<lparr>userSocketMap = Map.empty, roomsFiles = Map.empty, adapter_rooms = (\<lambda>r. []),
            uncaught = None\<rparr>"

text \<open>The room holds at least one file.\<close>

definition has_files :: "server \<Rightarrow> string \<Rightarrow> bool" where
  "has_files s r = (case roomsFiles s r of None \<Rightarrow> False | Some fs \<Rightarrow> fs \<noteq> [])"

text \<open>The scenario of the spec: A joins room r1 as Alice, B joins it as Bob, B adds
  \<^verbatim>\<open>util.py\<close>.\<close>

definition scenario :: server where
  "scenario =
     fst (run [(''A'', Join ''r1'' ''Alice''), (''B'', Join ''r1'' ''Bob''),
               (''B'', AddFile ''r1'' \<lparr>name = ''util.py'', content = ''''\<rparr>)] init)"

section \<open>Basic facts\<close>

lemmas handler_defs =
  on_join_def on_code_change_def on_cursor_change_def on_chat_message_def on_add_file_def
  on_rename_file_def on_delete_file_def on_disconnect_def

lemmas transport_defs =
  socket_join_def leave_all_def socket_emit_def io_to_emit_def socket_to_emit_def

lemmas lookup_defs = room_lookup_def object_prototype_names_def

lemma room_lookup_own: "roomsFiles s r = Some fs \<Longrightarrow> room_lookup s r = Files fs"
  by (simp add: room_lookup_def)

lemma room_lookup_Files: "room_lookup s r = Files fs \<longleftrightarrow> roomsFiles s r = Some fs"
  by (simp add: room_lookup_def split: option.splits)

lemma room_lookup_Undefined:
  "room_lookup s r = Undefined \<longleftrightarrow> roomsFiles s r = None \<and> r \<notin> set object_prototype_names"
  by (simp add: room_lookup_def split: option.splits)

lemma room_lookup_Inherited:
  "room_lookup s r = Inherited \<longleftrightarrow> roomsFiles s r = None \<and> r \<in> set object_prototype_names"
  by (simp add: room_lookup_def split: option.splits)

lemma scenario_files:
  "roomsFiles scenario ''r1'' =
     Some [\<lparr>name = ''main.py'', content = ''''\<rparr>, \<lparr>name = ''util.py'', content = ''''\<rparr>]"
  by (simp add: scenario_def init_def handler_defs transport_defs lookup_defs Let_def)

lemma scenario_members: "adapter_rooms scenario ''r1'' = [''A'', ''B'']"
  by (simp add: scenario_def init_def handler_defs transport_defs lookup_defs Let_def)

lemma scenario_users:
  "userSocketMap scenario ''A'' = Some \<lparr>username = ''Alice'', roomId = ''r1''\<rparr>"
  "userSocketMap scenario ''B'' = Some \<lparr>username = ''Bob'', roomId = ''r1''\<rparr>"
  "userSocketMap scenario ''C'' = None"
  by (simp_all add: scenario_def init_def handler_defs transport_defs lookup_defs Let_def)

lemma scenario_no_r2: "roomsFiles scenario ''r2'' = None" "adapter_rooms scenario ''r2'' = []"
  by (simp_all add: scenario_def init_def handler_defs transport_defs lookup_defs Let_def)

lemma length_splice_one: "length xs - 1 \<le> length (array_splice i 1 xs)"
  by (auto simp: array_splice_def Let_def min_def max_def)

lemma splice_valid:
  "0 \<le> i \<Longrightarrow> i < int (length xs) \<Longrightarrow>
     array_splice i 1 xs = take (nat i) xs @ drop (Suc (nat i)) xs"
  by (simp add: array_splice_def Let_def min_def max_def nat_add_distrib)

lemma join_creates:
  "room_lookup s r = Undefined \<Longrightarrow>
     roomsFiles (fst (on_join sid r u s)) r = Some [\<lparr>name = ''main.py'', content = ''''\<rparr>]"
  by (simp add: on_join_def socket_join_def room_lookup_def Let_def split: option.splits)

lemma join_keeps:
  "roomsFiles s r = Some fs \<Longrightarrow> roomsFiles (fst (on_join sid r' u s)) r = Some fs"
  by (cases "r' = r") (simp_all add: on_join_def socket_join_def room_lookup_def Let_def)

lemma join_inherited:
  "room_lookup s r = Inherited \<Longrightarrow> roomsFiles (fst (on_join sid r u s)) = roomsFiles s"
  by (simp add: on_join_def socket_join_def room_lookup_def Let_def split: option.splits if_splits)

lemma join_uncaught: "uncaught (fst (on_join sid r u s)) = uncaught s"
  by (simp add: on_join_def socket_join_def Let_def)

lemma code_change_stale:
  "roomsFiles s r = Some fs \<Longrightarrow> at_index fs k = None \<Longrightarrow>
     fst (on_code_change sid r code k s) = s"
  by (simp add: on_code_change_def room_lookup_def Let_def)

lemma clients_ids: "map socketId (clients s r) = adapter_rooms s r"
  by (simp add: clients_def comp_def)

lemma clients_names:
  "c \<in> set (clients s r) \<Longrightarrow>
     clientUsername c = or_anonymous (map_option username (userSocketMap s (socketId c)))"
  by (auto simp: clients_def)

section \<open>Delete file\<close>

text \<open>
  Claim C1. A delete-file event with an index that is invalid for the room should leave
  the file list alone and emit no file-deleted broadcast. The handler guards on the room
  only, where the rename and code-change handlers also guard on the index. In the room
  that A has just joined, whose only file is at index 0: the index 1 names no file, yet
  file-deleted is broadcast (the list is unchanged); the index -1 names no file either,
  yet \<^verbatim>\<open>splice\<close> counts it from the end and removes the last file.
\<close>

theorem delete_file_invalid_index_evaluated:
  "roomsFiles (fst (handle ''A'' (Join ''r1'' ''Alice'') init)) ''r1''
     = Some [\<lparr>name = ''main.py'', content = ''''\<rparr>]
   \<and> at_index [\<lparr>name = ''main.py'', content = ''''\<rparr>] 1 = None
   \<and> handle ''A'' (DeleteFile ''r1'' 1) (fst (handle ''A'' (Join ''r1'' ''Alice'') init))
       = (fst (handle ''A'' (Join ''r1'' ''Alice'') init), [([''A''], FileDeleted 1)])
   \<and> at_index [\<lparr>name = ''main.py'', content = ''''\<rparr>] (- 1) = None
   \<and> roomsFiles (fst (handle ''A'' (DeleteFile ''r1'' (- 1))
         (fst (handle ''A'' (Join ''r1'' ''Alice'') init)))) ''r1'' = Some []
   \<and> snd (handle ''A'' (DeleteFile ''r1'' (- 1)) (fst (handle ''A'' (Join ''r1'' ''Alice'') init)))
       = [([''A''], FileDeleted (- 1))]"
  by (simp add: init_def handler_defs transport_defs lookup_defs at_index_def array_splice_def
      Let_def)

section \<open>Rooms keep at least one file\<close>

lemma has_files_step:
  assumes "has_files s r" and "\<forall>i. ev \<noteq> DeleteFile r i"
  shows "has_files (fst (handle sid ev s)) r"
proof (cases ev)
  case (Join r' u)
  with assms show ?thesis
    by (auto simp: has_files_def on_join_def socket_join_def Let_def split: option.splits)
next
  case (CodeChange r' code i)
  with assms show ?thesis
    by (auto simp: has_files_def on_code_change_def room_lookup_Files Let_def
        split: option.splits room_entry.splits)
next
  case (CursorChange r' u c)
  with assms show ?thesis by (simp add: has_files_def on_cursor_change_def)
next
  case (ChatMessage r' u m t)
  with assms show ?thesis by (simp add: has_files_def on_chat_message_def)
next
  case (AddFile r' f)
  with assms show ?thesis
    by (auto simp: has_files_def on_add_file_def room_lookup_Files Let_def
        split: option.splits room_entry.splits)
next
  case (RenameFile r' i n)
  with assms show ?thesis
    by (auto simp: has_files_def on_rename_file_def room_lookup_Files Let_def
        split: option.splits room_entry.splits)
next
  case (DeleteFile r' i)
  with assms have "r' \<noteq> r" by auto
  with DeleteFile assms show ?thesis
    by (auto simp: has_files_def on_delete_file_def Let_def
        split: option.splits room_entry.splits)
next
  case Disconnect
  with assms show ?thesis
    by (auto simp: has_files_def on_disconnect_def leave_all_def Let_def split: option.splits)
qed

lemma has_files_delete:
  assumes "roomsFiles s r = Some fs" and "2 \<le> length fs"
  shows "has_files (fst (handle sid (DeleteFile r i) s)) r"
proof -
  have "length fs - 1 \<le> length (array_splice i 1 fs)" by (rule length_splice_one)
  with assms(2) have "array_splice i 1 fs \<noteq> []" by auto
  with assms(1) show ?thesis
    by (simp add: has_files_def on_delete_file_def room_lookup_own Let_def)
qed

text \<open>A room id that the store does not answer for stays so or comes to life with a
  file.\<close>

lemma undefined_or_has_files_step:
  assumes "room_lookup s r = Undefined" and "\<forall>i. ev \<noteq> DeleteFile r i"
  shows "room_lookup (fst (handle sid ev s)) r = Undefined \<or> has_files (fst (handle sid ev s)) r"
proof -
  from assms(1) have none: "roomsFiles s r = None" and nin: "r \<notin> set object_prototype_names"
    by (simp_all add: room_lookup_Undefined)
  show ?thesis
  proof (cases ev)
    case (Join r' u)
    with none nin show ?thesis
      by (auto simp: has_files_def on_join_def socket_join_def room_lookup_def Let_def)
  next
    case (CodeChange r' code i)
    with none nin show ?thesis
      by (auto simp: on_code_change_def room_lookup_def Let_def
          split: option.splits room_entry.splits if_splits)
  next
    case (CursorChange r' u c)
    with none nin show ?thesis by (simp add: on_cursor_change_def room_lookup_def)
  next
    case (ChatMessage r' u m t)
    with none nin show ?thesis by (simp add: on_chat_message_def room_lookup_def)
  next
    case (AddFile r' f)
    with none nin show ?thesis
      by (auto simp: has_files_def on_add_file_def room_lookup_def Let_def
          split: option.splits room_entry.splits if_splits)
  next
    case (RenameFile r' i n)
    with none nin show ?thesis
      by (auto simp: on_rename_file_def room_lookup_def Let_def
          split: option.splits room_entry.splits if_splits)
  next
    case (DeleteFile r' i)
    with assms have "r' \<noteq> r" by auto
    with DeleteFile none nin show ?thesis
      by (auto simp: on_delete_file_def room_lookup_def Let_def
          split: option.splits room_entry.splits if_splits)
  next
    case Disconnect
    with none nin show ?thesis
      by (auto simp: on_disconnect_def leave_all_def room_lookup_def Let_def
          split: option.splits)
  qed
qed

lemma has_files_run:
  assumes "has_files s r" and "\<forall>sid i. (sid, DeleteFile r i) \<notin> set evs"
  shows "has_files (fst (run evs s)) r"
  using assms
proof (induction evs arbitrary: s)
  case Nil
  then show ?case by simp
next
  case (Cons e evs)
  obtain sid ev where e: "e = (sid, ev)" by (cases e)
  with Cons.prems(2) have nd: "\<forall>i. ev \<noteq> DeleteFile r i" by auto
  with Cons.prems(1) have "has_files (fst (handle sid ev s)) r" by (rule has_files_step)
  moreover from Cons.prems(2) have "\<forall>sid i. (sid, DeleteFile r i) \<notin> set evs" by simp
  ultimately have "has_files (fst (run evs (fst (handle sid ev s)))) r" by (rule Cons.IH)
  with e Cons.prems(1) show ?case by (simp add: split_beta)
qed

lemma joined_run_has_files:
  assumes "room_lookup s r = Undefined \<or> has_files s r"
    and "(sid, Join r u) \<in> set evs"
    and "\<forall>sid i. (sid, DeleteFile r i) \<notin> set evs"
    and "uncaught (fst (run evs s)) = None"
  shows "has_files (fst (run evs s)) r"
  using assms
proof (induction evs arbitrary: s)
  case Nil
  then show ?case by simp
next
  case (Cons e evs)
  obtain sid' ev where e: "e = (sid', ev)" by (cases e)
  with Cons.prems(3) have nd: "\<forall>i. ev \<noteq> DeleteFile r i" by auto
  from Cons.prems(3) have rest: "\<forall>sid i. (sid, DeleteFile r i) \<notin> set evs" by simp
  let ?s = "fst (handle sid' ev s)"
  from Cons.prems(4) e have alive: "uncaught s = None"
    by (cases "uncaught s") simp_all
  with e have unfold: "fst (run (e # evs) s) = fst (run evs ?s)"
    by (simp add: split_beta)
  from Cons.prems(1) nd have inv: "room_lookup ?s r = Undefined \<or> has_files ?s r"
    using undefined_or_has_files_step [of s r ev sid'] has_files_step [of s r ev sid'] by blast
  show ?case
  proof (cases "ev = Join r u")
    case True
    from Cons.prems(1) have "has_files (fst (on_join sid' r u s)) r"
      using join_creates [of s r sid' u] has_files_step [of s r "Join r u" sid']
      by (auto simp: has_files_def)
    with True have "has_files ?s r" by simp
    then have "has_files (fst (run evs ?s)) r" using rest by (rule has_files_run)
    with unfold show ?thesis by simp
  next
    case False
    with Cons.prems(2) e have "(sid, Join r u) \<in> set evs" by auto
    moreover from Cons.prems(4) unfold have "uncaught (fst (run evs ?s)) = None" by simp
    ultimately have "has_files (fst (run evs ?s)) r" using inv rest by (intro Cons.IH)
    with unfold show ?thesis by simp
  qed
qed

text \<open>
  Claim C2, as stated: once a room has been joined, its file list is non-empty, and every
  later operation, delete-file included, keeps it so. It fails: A joins room r1, which
  gets its single default file, and deletes the file at index 0.
\<close>

theorem files_nonempty_counterexample:
  "\<not> has_files
       (fst (run [(''A'', Join ''r1'' ''Alice''), (''A'', DeleteFile ''r1'' 0)] init)) ''r1''"
  by (simp add: has_files_def init_def handler_defs transport_defs lookup_defs
      array_splice_def Let_def)

text \<open>
  Claim C2, amended. For a room id that names no property inherited from
  \<^verbatim>\<open>Object.prototype\<close>: the join that finds no room gives it a file; every event other than
  a delete-file on the room keeps a non-empty list non-empty; a delete-file keeps it
  non-empty when the room holds at least two files; so at the end of every run that no
  exception has cut short, in which the room is joined and no delete-file is addressed to
  it, the list is non-empty. The second and the third part hold for every room id.
\<close>

theorem files_nonempty_unless_deleted:
  "(roomsFiles s r = None \<and> r \<notin> set object_prototype_names \<longrightarrow>
      has_files (fst (handle sid (Join r u) s)) r) \<and>
   (has_files s r \<and> (\<forall>i. ev \<noteq> DeleteFile r i) \<longrightarrow> has_files (fst (handle sid ev s)) r) \<and>
   (roomsFiles s r = Some fs \<and> 2 \<le> length fs \<longrightarrow>
      has_files (fst (handle sid (DeleteFile r i) s)) r) \<and>
   ((roomsFiles s r = None \<and> r \<notin> set object_prototype_names \<or> has_files s r) \<and>
      (sid, Join r u) \<in> set evs \<and> (\<forall>sid' j. (sid', DeleteFile r j) \<notin> set evs) \<and>
      uncaught (fst (run evs s)) = None \<longrightarrow> has_files (fst (run evs s)) r)"
proof -
  have p1: "has_files (fst (handle sid (Join r u) s)) r"
    if "roomsFiles s r = None \<and> r \<notin> set object_prototype_names"
    using that join_creates [of s r sid u] by (simp add: room_lookup_Undefined has_files_def)
  have p4: "has_files (fst (run evs s)) r"
    if "roomsFiles s r = None \<and> r \<notin> set object_prototype_names \<or> has_files s r"
      and "(sid, Join r u) \<in> set evs" and "\<forall>sid' j. (sid', DeleteFile r j) \<notin> set evs"
      and "uncaught (fst (run evs s)) = None"
    using that joined_run_has_files [of s r sid u evs] by (simp add: room_lookup_Undefined)
  from p1 p4 has_files_step [of s r ev sid] has_files_delete [of s r fs sid i]
  show ?thesis by blast
qed

theorem files_nonempty_unless_deleted_witness:
  "roomsFiles init ''r1'' = None
   \<and> ''r1'' \<notin> set object_prototype_names
   \<and> has_files (fst (handle ''A'' (Join ''r1'' ''Alice'') init)) ''r1''
   \<and> has_files scenario ''r1''
   \<and> has_files (fst (handle ''B'' (CodeChange ''r1'' ''print(1)'' 0) scenario)) ''r1''
   \<and> has_files (fst (handle ''A'' (DeleteFile ''r1'' 0) scenario)) ''r1''
   \<and> uncaught (fst (run [(''A'', Join ''r1'' ''Alice''), (''A'', Disconnect)] init)) = None
   \<and> has_files (fst (run [(''A'', Join ''r1'' ''Alice''), (''A'', Disconnect)] init)) ''r1''"
proof -
  have none: "roomsFiles init ''r1'' = None" by (simp add: init_def)
  have nin: "''r1'' \<notin> set object_prototype_names" by (simp add: object_prototype_names_def)
  have some: "has_files scenario ''r1''" by (simp add: has_files_def scenario_files)
  have alive: "uncaught (fst (run [(''A'', Join ''r1'' ''Alice''), (''A'', Disconnect)] init)) = None"
    by (simp add: init_def on_join_def on_disconnect_def transport_defs lookup_defs Let_def)
  note main = files_nonempty_unless_deleted
  from none nin alive main [of init "''r1''" "''A''" "''Alice''" "Disconnect" "[]" 0
      "[(''A'', Join ''r1'' ''Alice''), (''A'', Disconnect)]"]
  have a: "has_files (fst (handle ''A'' (Join ''r1'' ''Alice'') init)) ''r1''"
    and d: "has_files (fst (run [(''A'', Join ''r1'' ''Alice''), (''A'', Disconnect)] init)) ''r1''"
    by simp_all
  from some scenario_files
    main [of scenario "''r1''" "''B''" "''Bob''" "CodeChange ''r1'' ''print(1)'' 0" _ 0 "[]"]
  have b: "has_files (fst (handle ''B'' (CodeChange ''r1'' ''print(1)'' 0) scenario)) ''r1''"
    by simp
  from scenario_files
    main [of scenario "''r1''" "''A''" "''Alice''" "Disconnect"
      "[\<lparr>name = ''main.py'', content = ''''\<rparr>, \<lparr>name = ''util.py'', content = ''''\<rparr>]" 0 "[]"]
  have c: "has_files (fst (handle ''A'' (DeleteFile ''r1'' 0) scenario)) ''r1''"
    by simp
  from none nin a some b c alive d show ?thesis by simp
qed

section \<open>Roster names\<close>

text \<open>
  Claim C3, as stated: a connection registered with display name \<open>d\<close> is listed in the
  roster with exactly \<open>d\<close>, the empty string included, and "Anonymous" stands only for a
  connection without a registry entry. It fails for the empty name: A joins room r1 with
  the name \<^verbatim>\<open>""\<close>, the registry stores it as it is, and the roster broadcast by that very
  join lists A as "Anonymous".
\<close>

theorem roster_empty_name_counterexample:
  "userSocketMap (fst (handle ''A'' (Join ''r1'' '''') init)) ''A''
     = Some \<lparr>username = '''', roomId = ''r1''\<rparr>
   \<and> snd (handle ''A'' (Join ''r1'' '''') init)
     = [([''A''], InitializeFiles (Some [\<lparr>name = ''main.py'', content = ''''\<rparr>])),
        ([''A''], Joined [\<lparr>socketId = ''A'', clientUsername = ''Anonymous''\<rparr>])]
   \<and> \<lparr>socketId = ''A'', clientUsername = ''''\<rparr>
     \<notin> set [\<lparr>socketId = ''A'', clientUsername = ''Anonymous''\<rparr>]"
  by (simp add: init_def handler_defs transport_defs lookup_defs clients_def or_anonymous_def
      Let_def)

text \<open>
  Claim C3, amended: in every roster that a join or a disconnect broadcasts, the entries
  are the members of the room, in order, and each entry names its connection by the
  display name in the registry at that moment when that name is not empty; the label
  "Anonymous" is used for a connection with no registry entry and for one registered with
  the empty name.
\<close>

theorem roster_names:
  assumes "handle sid ev s = (s', out)"
    and "(rcpts, Joined cs) \<in> set out \<or> (rcpts, Disconnected x cs) \<in> set out"
  shows "map socketId cs = rcpts \<and>
    (\<forall>c \<in> set cs.
       (userSocketMap s' (socketId c) = None \<longrightarrow> clientUsername c = ''Anonymous'') \<and>
       (\<forall>p. userSocketMap s' (socketId c) = Some p \<and> username p \<noteq> [] \<longrightarrow>
          clientUsername c = username p) \<and>
       (\<forall>p. userSocketMap s' (socketId c) = Some p \<and> username p = [] \<longrightarrow>
          clientUsername c = ''Anonymous''))"
proof -
  from assms obtain r where cs: "cs = clients s' r" and rcpts: "rcpts = adapter_rooms s' r"
    by (cases ev)
      (auto simp: handler_defs socket_emit_def io_to_emit_def socket_to_emit_def Let_def
        split: option.splits room_entry.splits if_splits)
  have "clientUsername c = ''Anonymous''"
    if "c \<in> set cs" and "userSocketMap s' (socketId c) = None" for c
    using that clients_names [of c s' r] by (simp add: cs or_anonymous_def)
  moreover have "clientUsername c = username p"
    if "c \<in> set cs" and "userSocketMap s' (socketId c) = Some p" and "username p \<noteq> []" for c p
    using that clients_names [of c s' r] by (simp add: cs or_anonymous_def)
  moreover have "clientUsername c = ''Anonymous''"
    if "c \<in> set cs" and "userSocketMap s' (socketId c) = Some p" and "username p = []" for c p
    using that clients_names [of c s' r] by (simp add: cs or_anonymous_def)
  moreover have "map socketId cs = rcpts" by (simp add: cs rcpts clients_ids)
  ultimately show ?thesis by blast
qed

theorem roster_names_witness:
  "([''A'', ''B'', ''C''],
        Joined [\<lparr>socketId = ''A'', clientUsername = ''Alice''\<rparr>,
                \<lparr>socketId = ''B'', clientUsername = ''Bob''\<rparr>,
                \<lparr>socketId = ''C'', clientUsername = ''Anonymous''\<rparr>])
       \<in> set (snd (handle ''C'' (Join ''r1'' '''') scenario))
   \<and> map socketId [\<lparr>socketId = ''A'', clientUsername = ''Alice''\<rparr>,
                    \<lparr>socketId = ''B'', clientUsername = ''Bob''\<rparr>,
                    \<lparr>socketId = ''C'', clientUsername = ''Anonymous''\<rparr>] = [''A'', ''B'', ''C'']
   \<and> userSocketMap (fst (handle ''C'' (Join ''r1'' '''') scenario)) ''A''
       = Some \<lparr>username = ''Alice'', roomId = ''r1''\<rparr>
   \<and> userSocketMap (fst (handle ''C'' (Join ''r1'' '''') scenario)) ''C''
       = Some \<lparr>username = '''', roomId = ''r1''\<rparr>"
proof -
  let ?cs = "[\<lparr>socketId = ''A'', clientUsername = ''Alice''\<rparr>,
              \<lparr>socketId = ''B'', clientUsername = ''Bob''\<rparr>,
              \<lparr>socketId = ''C'', clientUsername = ''Anonymous''\<rparr>]"
  let ?h = "handle ''C'' (Join ''r1'' '''') scenario"
  have run: "?h = (fst ?h, snd ?h)"
    by (rule prod.collapse [symmetric])
  have out: "snd ?h
     = [([''C''], InitializeFiles (roomsFiles scenario ''r1'')), ([''A'', ''B'', ''C''], Joined ?cs)]"
    by (simp add: on_join_def transport_defs clients_def or_anonymous_def Let_def
        room_lookup_def scenario_files scenario_members scenario_users)
  then have mem: "([''A'', ''B'', ''C''], Joined ?cs) \<in> set (snd ?h)
      \<or> ([''A'', ''B'', ''C''], Disconnected ''C'' ?cs) \<in> set (snd ?h)"
    by simp
  have users: "userSocketMap (fst ?h) ''A'' = Some \<lparr>username = ''Alice'', roomId = ''r1''\<rparr>"
    "userSocketMap (fst ?h) ''C'' = Some \<lparr>username = '''', roomId = ''r1''\<rparr>"
    by (simp_all add: on_join_def transport_defs room_lookup_def Let_def scenario_files
        scenario_users)
  from roster_names [OF run mem] have "map socketId ?cs = [''A'', ''B'', ''C'']" ..
  with out users show ?thesis by simp
qed

section \<open>Audiences of code-change and chat-message\<close>

text \<open>
  Claim C4. A code-change event is rebroadcast, with its code and file index, to the
  members of the room other than the sender; a chat-message event is broadcast, with the
  username, message and timestamp it came with, to all the members of the room, so to the
  sender too when it is one of them.
\<close>

theorem code_change_and_chat_audience:
  "(\<exists>rcpts. snd (handle sid (CodeChange r code i) s) = [(rcpts, CodeChanged code i)]
       \<and> set rcpts = set (adapter_rooms s r) - {sid})
   \<and> snd (handle sid (ChatMessage r u msg t) s) = [(adapter_rooms s r, ChatMessaged u msg t)]"
proof -
  have "adapter_rooms (fst (on_code_change sid r code i s)) = adapter_rooms s"
    by (simp add: on_code_change_def Let_def split: option.splits room_entry.splits)
  then have "snd (handle sid (CodeChange r code i) s)
      = [(filter (\<lambda>j. j \<noteq> sid) (adapter_rooms s r), CodeChanged code i)]"
    by (simp add: on_code_change_def socket_to_emit_def Let_def)
  moreover have "set (filter (\<lambda>j. j \<noteq> sid) (adapter_rooms s r)) = set (adapter_rooms s r) - {sid}"
    by auto
  moreover have "snd (handle sid (ChatMessage r u msg t) s)
      = [(adapter_rooms s r, ChatMessaged u msg t)]"
    by (simp add: on_chat_message_def io_to_emit_def)
  ultimately show ?thesis by blast
qed

theorem code_change_and_chat_audience_witness:
  "snd (handle ''A'' (CodeChange ''r1'' ''print(1)'' 0) scenario)
     = [([''B''], CodeChanged ''print(1)'' 0)]
   \<and> snd (handle ''A'' (ChatMessage ''r1'' ''Alice'' ''hello'' ''10:00'') scenario)
     = [([''A'', ''B''], ChatMessaged ''Alice'' ''hello'' ''10:00'')]"
proof -
  from code_change_and_chat_audience
    [of "''A''" "''r1''" "''print(1)''" 0 scenario "''Alice''" "''hello''" "''10:00''"]
  have chat: "snd (handle ''A'' (ChatMessage ''r1'' ''Alice'' ''hello'' ''10:00'') scenario)
     = [([''A'', ''B''], ChatMessaged ''Alice'' ''hello'' ''10:00'')]"
    by (simp add: scenario_members)
  have "snd (handle ''A'' (CodeChange ''r1'' ''print(1)'' 0) scenario)
     = [([''B''], CodeChanged ''print(1)'' 0)]"
    by (simp add: on_code_change_def socket_to_emit_def at_index_def room_lookup_def Let_def
        scenario_files scenario_members)
  with chat show ?thesis by simp
qed

section \<open>Deleting shifts the later files\<close>

text \<open>
  Claim C5. Deleting the file at a valid index \<open>i\<close> leaves the files below \<open>i\<close> in
  place and moves each file at an index \<open>j > i\<close> to \<open>j - 1\<close>; afterwards a code-change
  whose index holds no file changes nothing in the server state (the handler has no error
  path).
\<close>

theorem delete_file_shifts:
  assumes "roomsFiles s r = Some fs" and "0 \<le> i" and "i < int (length fs)"
  shows "\<exists>fs'. roomsFiles (fst (handle sid (DeleteFile r i) s)) r = Some fs' \<and>
      length fs' = length fs - 1 \<and>
      (\<forall>j. j < nat i \<longrightarrow> fs' ! j = fs ! j) \<and>
      (\<forall>j. nat i < j \<and> j < length fs \<longrightarrow> fs' ! (j - 1) = fs ! j) \<and>
      (\<forall>sid' code k. at_index fs' k = None \<longrightarrow>
         fst (handle sid' (CodeChange r code k) (fst (handle sid (DeleteFile r i) s)))
           = fst (handle sid (DeleteFile r i) s))"
proof -
  let ?fs' = "take (nat i) fs @ drop (Suc (nat i)) fs"
  let ?s' = "fst (handle sid (DeleteFile r i) s)"
  from assms have sp: "array_splice i 1 fs = ?fs'" by (simp add: splice_valid)
  with assms(1) have room: "roomsFiles ?s' r = Some ?fs'"
    by (simp add: on_delete_file_def room_lookup_own Let_def)
  from assms have ni: "nat i < length fs" by simp
  then have len: "length ?fs' = length fs - 1" by auto
  from ni have low: "\<forall>j. j < nat i \<longrightarrow> ?fs' ! j = fs ! j"
    by (simp add: nth_append)
  have high: "\<forall>j. nat i < j \<and> j < length fs \<longrightarrow> ?fs' ! (j - 1) = fs ! j"
  proof (intro allI impI)
    fix j assume j: "nat i < j \<and> j < length fs"
    then have "?fs' ! (j - 1) = drop (Suc (nat i)) fs ! (j - 1 - nat i)"
      using ni by (auto simp: nth_append min_def)
    also from j have "\<dots> = fs ! j" by simp
    finally show "?fs' ! (j - 1) = fs ! j" .
  qed
  have stale: "\<forall>sid' code k. at_index ?fs' k = None \<longrightarrow>
         fst (handle sid' (CodeChange r code k) ?s') = ?s'"
    using room by (simp add: code_change_stale)
  from room len low high stale show ?thesis by blast
qed

theorem delete_file_shifts_witness:
  "roomsFiles scenario ''r1''
     = Some [\<lparr>name = ''main.py'', content = ''''\<rparr>, \<lparr>name = ''util.py'', content = ''''\<rparr>]
   \<and> (0::int) \<le> 0
   \<and> (0::int) < int (length [\<lparr>name = ''main.py'', content = ''''\<rparr>,
                               \<lparr>name = ''util.py'', content = ''''\<rparr>])
   \<and> (\<exists>fs'. roomsFiles (fst (handle ''A'' (DeleteFile ''r1'' 0) scenario)) ''r1'' = Some fs'
        \<and> length fs' = 1
        \<and> fs' ! 0 = \<lparr>name = ''util.py'', content = ''''\<rparr>
        \<and> fst (handle ''B'' (CodeChange ''r1'' ''x = 1'' 1)
               (fst (handle ''A'' (DeleteFile ''r1'' 0) scenario)))
            = fst (handle ''A'' (DeleteFile ''r1'' 0) scenario))"
proof -
  let ?fs = "[\<lparr>name = ''main.py'', content = ''''\<rparr>, \<lparr>name = ''util.py'', content = ''''\<rparr>]"
  let ?s' = "fst (handle ''A'' (DeleteFile ''r1'' 0) scenario)"
  have h2: "(0::int) \<le> 0" and h3: "(0::int) < int (length ?fs)" by simp_all
  from delete_file_shifts [OF scenario_files h2 h3, of "''A''"]
  obtain fs' where room: "roomsFiles ?s' ''r1'' = Some fs'"
    and len: "length fs' = length ?fs - 1"
    and high: "\<forall>j. nat 0 < j \<and> j < length ?fs \<longrightarrow> fs' ! (j - 1) = ?fs ! j"
    and stale: "\<forall>sid' code k. at_index fs' k = None \<longrightarrow>
         fst (handle sid' (CodeChange ''r1'' code k) ?s') = ?s'"
    by blast
  from len have len1: "length fs' = 1" by simp
  from high [THEN spec, of 1]
  have first: "fs' ! 0 = \<lparr>name = ''util.py'', content = ''''\<rparr>" by simp
  from len1 have "at_index fs' 1 = None" by (simp add: at_index_def)
  with stale have "fst (handle ''B'' (CodeChange ''r1'' ''x = 1'' 1) ?s') = ?s'" by blast
  with room len1 first scenario_files h2 h3 show ?thesis by blast
qed

section \<open>Join\<close>

text \<open>What the join handler emits, for every room id: two events, the first to the
  joining connection alone and the second, the roster, to all the members of the room,
  the joining connection among them. When the room id names no inherited property, the
  first event carries the file list of the room.\<close>

lemma join_emits_two:
  "\<exists>s' p. handle sid (Join r u) s
       = (s', [([sid], p), (adapter_rooms s' r, Joined (clients s' r))])
     \<and> sid \<in> set (adapter_rooms s' r)
     \<and> \<lparr>socketId = sid, clientUsername = or_anonymous (Some u)\<rparr> \<in> set (clients s' r)
     \<and> (r \<notin> set object_prototype_names \<longrightarrow>
          (\<exists>fs. p = InitializeFiles (Some fs) \<and> roomsFiles s' r = Some fs))"
  by (auto simp: on_join_def socket_join_def socket_emit_def io_to_emit_def clients_def
      room_lookup_def Let_def image_iff split: option.splits)

text \<open>
  Claim C6. On every join the joining connection, and only it, should be sent the room's
  current file snapshot, before the roster is broadcast to the room. The handler emits in
  that order, but it reads the snapshot from a plain object: when A joins the room
  \<^verbatim>\<open>constructor\<close> on a fresh server, the guard \<^verbatim>\<open>!roomsFiles[roomId]\<close> is false, no room is
  created, and initialize-files carries the inherited member instead of a list of files.
\<close>

theorem join_inherited_room_id_evaluated:
  "roomsFiles init ''constructor'' = None
   \<and> snd (handle ''A'' (Join ''constructor'' ''Alice'') init)
       = [([''A''], InitializeInherited ''constructor''),
          ([''A''], Joined [\<lparr>socketId = ''A'', clientUsername = ''Alice''\<rparr>])]
   \<and> roomsFiles (fst (handle ''A'' (Join ''constructor'' ''Alice'') init)) ''constructor'' = None"
  by (simp add: init_def on_join_def transport_defs lookup_defs clients_def or_anonymous_def
      Let_def)

section \<open>Creating a room on join\<close>

text \<open>For a room id that names no inherited property: starting from a server on which
  the room does not exist, any non-empty sequence of joins to it leaves the room with
  exactly the default file; and for every room id a join to a room that exists leaves its
  file list as it is.\<close>

lemma joins_keep_files:
  assumes "roomsFiles s r = Some fs" and "\<forall>e \<in> set evs. \<exists>u. snd e = Join r u"
  shows "roomsFiles (fst (run evs s)) r = Some fs"
  using assms
proof (induction evs arbitrary: s)
  case Nil
  then show ?case by simp
next
  case (Cons e evs)
  obtain sid ev where e: "e = (sid, ev)" by (cases e)
  with Cons.prems obtain u where ev: "ev = Join r u" by auto
  from Cons.prems(1) have "roomsFiles (fst (on_join sid r u s)) r = Some fs"
    by (rule join_keeps)
  with Cons.prems have "roomsFiles (fst (run evs (fst (on_join sid r u s)))) r = Some fs"
    by (intro Cons.IH) simp_all
  with e ev Cons.prems(1) show ?case by (simp add: split_beta)
qed

lemma joins_seed_once:
  assumes "room_lookup s r = Undefined" and "uncaught s = None" and "evs \<noteq> []"
    and "\<forall>e \<in> set evs. \<exists>u. snd e = Join r u"
  shows "roomsFiles (fst (run evs s)) r = Some [\<lparr>name = ''main.py'', content = ''''\<rparr>]"
proof -
  from assms(3) obtain e es where evs: "evs = e # es" by (cases evs) auto
  obtain sid ev where e: "e = (sid, ev)" by (cases e)
  with assms(4) evs obtain u where ev: "ev = Join r u" by auto
  from assms(1)
  have "roomsFiles (fst (on_join sid r u s)) r = Some [\<lparr>name = ''main.py'', content = ''''\<rparr>]"
    by (rule join_creates)
  moreover from assms(4) evs have "\<forall>e \<in> set es. \<exists>u. snd e = Join r u" by simp
  ultimately have "roomsFiles (fst (run es (fst (on_join sid r u s)))) r
      = Some [\<lparr>name = ''main.py'', content = ''''\<rparr>]"
    by (rule joins_keep_files)
  with evs e ev assms(2) show ?thesis by (simp add: split_beta)
qed

text \<open>
  Claim C7. For every room id, joining a room that does not exist should create it with
  exactly one file, "main.py" with empty content, however often the join is repeated.
  The creation is guarded by \<^verbatim>\<open>!roomsFiles[roomId]\<close> on a plain object: for the room id
  \<^verbatim>\<open>toString\<close> the lookup finds the inherited function, so the first join by A and a
  second join by B on a fresh server create nothing, and the store has no list of files
  for the room.
\<close>

theorem join_creates_no_room_for_inherited_id:
  "room_lookup init ''toString'' = Inherited
   \<and> roomsFiles (fst (handle ''A'' (Join ''toString'' ''Alice'') init)) ''toString'' = None
   \<and> roomsFiles (fst (handle ''B'' (Join ''toString'' ''Bob'')
         (fst (handle ''A'' (Join ''toString'' ''Alice'') init)))) ''toString'' = None
   \<and> room_lookup (fst (handle ''B'' (Join ''toString'' ''Bob'')
         (fst (handle ''A'' (Join ''toString'' ''Alice'') init)))) ''toString'' = Inherited"
  by (simp add: init_def on_join_def transport_defs lookup_defs Let_def)

section \<open>Rename file\<close>

text \<open>
  Claim C8. When the room exists and the index holds a file, rename-file gives that file
  the new name, leaves its content, the other files and everything else in the server as
  they were, and broadcasts the index and the new name to all the members of the room;
  when the room does not exist or the index holds no file, the server is unchanged and
  nothing is emitted.
\<close>

theorem rename_file_valid_or_dropped:
  "(roomsFiles s r = Some fs \<and> 0 \<le> i \<and> i < int (length fs) \<longrightarrow>
      handle sid (RenameFile r i n) s =
        (s\<lparr>roomsFiles := (roomsFiles s)(r \<mapsto> fs[nat i := (fs ! nat i)\<lparr>name := n\<rparr>])\<rparr>,
         [(adapter_rooms s r, FileRenamed i n)]) \<and>
      name (fs[nat i := (fs ! nat i)\<lparr>name := n\<rparr>] ! nat i) = n \<and>
      content (fs[nat i := (fs ! nat i)\<lparr>name := n\<rparr>] ! nat i) = content (fs ! nat i) \<and>
      (\<forall>j. j \<noteq> nat i \<longrightarrow> fs[nat i := (fs ! nat i)\<lparr>name := n\<rparr>] ! j = fs ! j)) \<and>
   (roomsFiles s r = None \<or> (roomsFiles s r = Some fs \<and> (i < 0 \<or> int (length fs) \<le> i)) \<longrightarrow>
      handle sid (RenameFile r i n) s = (s, []))"
  by (auto simp: on_rename_file_def room_lookup_def at_index_def io_to_emit_def Let_def)

theorem rename_file_valid_or_dropped_witness:
  "roomsFiles scenario ''r1''
     = Some [\<lparr>name = ''main.py'', content = ''''\<rparr>, \<lparr>name = ''util.py'', content = ''''\<rparr>]
   \<and> roomsFiles (fst (handle ''A'' (RenameFile ''r1'' 1 ''lib.py'') scenario)) ''r1''
     = Some [\<lparr>name = ''main.py'', content = ''''\<rparr>, \<lparr>name = ''lib.py'', content = ''''\<rparr>]
   \<and> snd (handle ''A'' (RenameFile ''r1'' 1 ''lib.py'') scenario)
     = [([''A'', ''B''], FileRenamed 1 ''lib.py'')]
   \<and> handle ''A'' (RenameFile ''r1'' 2 ''lib.py'') scenario = (scenario, [])
   \<and> roomsFiles scenario ''r2'' = None
   \<and> handle ''A'' (RenameFile ''r2'' 0 ''lib.py'') scenario = (scenario, [])"
proof -
  let ?fs = "[\<lparr>name = ''main.py'', content = ''''\<rparr>, \<lparr>name = ''util.py'', content = ''''\<rparr>]"
  have none: "roomsFiles scenario ''r2'' = None" by (rule scenario_no_r2)
  from scenario_files
    rename_file_valid_or_dropped [of scenario "''r1''" ?fs 1 "''A''" "''lib.py''"]
  have "handle ''A'' (RenameFile ''r1'' 1 ''lib.py'') scenario =
        (scenario\<lparr>roomsFiles := (roomsFiles scenario)
            (''r1'' \<mapsto> [\<lparr>name = ''main.py'', content = ''''\<rparr>, \<lparr>name = ''lib.py'', content = ''''\<rparr>])\<rparr>,
         [(adapter_rooms scenario ''r1'', FileRenamed 1 ''lib.py'')])"
    by simp
  then have a: "roomsFiles (fst (handle ''A'' (RenameFile ''r1'' 1 ''lib.py'') scenario)) ''r1''
     = Some [\<lparr>name = ''main.py'', content = ''''\<rparr>, \<lparr>name = ''lib.py'', content = ''''\<rparr>]"
    and b: "snd (handle ''A'' (RenameFile ''r1'' 1 ''lib.py'') scenario)
     = [([''A'', ''B''], FileRenamed 1 ''lib.py'')]"
    by (simp_all add: scenario_members)
  from scenario_files
    rename_file_valid_or_dropped [of scenario "''r1''" ?fs 2 "''A''" "''lib.py''"]
  have c: "handle ''A'' (RenameFile ''r1'' 2 ''lib.py'') scenario = (scenario, [])"
    by simp
  from none
    rename_file_valid_or_dropped [of scenario "''r2''" ?fs 0 "''A''" "''lib.py''"]
  have d: "handle ''A'' (RenameFile ''r2'' 0 ''lib.py'') scenario = (scenario, [])"
    by simp
  from scenario_files a b c none d show ?thesis by simp
qed

section \<open>Disconnect\<close>

text \<open>
  Claim C9, as stated: the disconnect of a joined connection removes its registry entry
  and broadcasts the roster to its room. It fails when the room id is the empty string:
  A joins the room \<^verbatim>\<open>""\<close> and is registered with it, but on its disconnect the
  test \<^verbatim>\<open>if (roomId)\<close> is false and nothing is broadcast.
\<close>

theorem disconnect_empty_room_counterexample:
  "userSocketMap (fst (handle ''A'' (Join '''' ''Alice'') init)) ''A''
     = Some \<lparr>username = ''Alice'', roomId = ''''\<rparr>
   \<and> adapter_rooms (fst (handle ''A'' (Join '''' ''Alice'') init)) '''' = [''A'']
   \<and> snd (handle ''A'' Disconnect (fst (handle ''A'' (Join '''' ''Alice'') init))) = []"
  by (simp add: init_def on_join_def on_disconnect_def transport_defs lookup_defs Let_def)

text \<open>
  Claim C9, amended: the disconnect of a connection with no registry entry emits nothing
  and leaves the room store unchanged; the disconnect of a connection registered with a
  non-empty room id removes its registry entry, leaves the room store unchanged and emits
  one broadcast to the remaining members of that room, tagged with the identifier of the
  departing connection and carrying the roster of the remaining members, which does not
  list it; the disconnect of a connection registered with the empty room id removes its
  registry entry and emits nothing.
\<close>

theorem disconnect_effects:
  "(userSocketMap s sid = None \<longrightarrow>
      snd (handle sid Disconnect s) = [] \<and>
      roomsFiles (fst (handle sid Disconnect s)) = roomsFiles s) \<and>
   (userSocketMap s sid = Some p \<and> roomId p \<noteq> [] \<longrightarrow>
      userSocketMap (fst (handle sid Disconnect s)) sid = None \<and>
      roomsFiles (fst (handle sid Disconnect s)) = roomsFiles s \<and>
      snd (handle sid Disconnect s) =
        [(removeAll sid (adapter_rooms s (roomId p)),
          Disconnected sid (clients (fst (handle sid Disconnect s)) (roomId p)))] \<and>
      map socketId (clients (fst (handle sid Disconnect s)) (roomId p))
         = removeAll sid (adapter_rooms s (roomId p)) \<and>
      sid \<notin> set (removeAll sid (adapter_rooms s (roomId p)))) \<and>
   (userSocketMap s sid = Some p \<and> roomId p = [] \<longrightarrow>
      userSocketMap (fst (handle sid Disconnect s)) sid = None \<and>
      snd (handle sid Disconnect s) = [])"
  by (auto simp: on_disconnect_def leave_all_def io_to_emit_def clients_def Let_def comp_def)

theorem disconnect_effects_witness:
  "userSocketMap scenario ''C'' = None
   \<and> snd (handle ''C'' Disconnect scenario) = []
   \<and> roomsFiles (fst (handle ''C'' Disconnect scenario)) = roomsFiles scenario
   \<and> userSocketMap scenario ''A'' = Some \<lparr>username = ''Alice'', roomId = ''r1''\<rparr>
   \<and> userSocketMap (fst (handle ''A'' Disconnect scenario)) ''A'' = None
   \<and> snd (handle ''A'' Disconnect scenario)
       = [([''B''], Disconnected ''A'' [\<lparr>socketId = ''B'', clientUsername = ''Bob''\<rparr>])]"
proof -
  from scenario_users(3) disconnect_effects [of scenario "''C''"]
  have a: "snd (handle ''C'' Disconnect scenario) = []"
    and b: "roomsFiles (fst (handle ''C'' Disconnect scenario)) = roomsFiles scenario"
    by simp_all
  have cl: "clients (fst (handle ''A'' Disconnect scenario)) ''r1''
      = [\<lparr>socketId = ''B'', clientUsername = ''Bob''\<rparr>]"
    by (simp add: clients_def on_disconnect_def leave_all_def or_anonymous_def Let_def
        scenario_members scenario_users)
  from scenario_users(1)
    disconnect_effects [of scenario "''A''" "\<lparr>username = ''Alice'', roomId = ''r1''\<rparr>"]
  have c: "userSocketMap (fst (handle ''A'' Disconnect scenario)) ''A'' = None"
    and d: "snd (handle ''A'' Disconnect scenario) =
        [(removeAll ''A'' (adapter_rooms scenario ''r1''),
          Disconnected ''A'' (clients (fst (handle ''A'' Disconnect scenario)) ''r1''))]"
    by simp_all
  from d have e: "snd (handle ''A'' Disconnect scenario)
       = [([''B''], Disconnected ''A'' [\<lparr>socketId = ''B'', clientUsername = ''Bob''\<rparr>])]"
    unfolding cl scenario_members by simp
  from scenario_users(1,3) a b c e show ?thesis by simp
qed

section \<open>Add file\<close>

text \<open>For a room id that names no inherited property and has no room, add-file creates
  the room with the pushed file alone, at index 0, and broadcasts it; for a room id that
  names an inherited property and has no room, add-file throws and does nothing else.\<close>

lemma add_file_creates_room:
  assumes "room_lookup s r = Undefined"
  shows "handle sid (AddFile r f) s
      = (s\<lparr>roomsFiles := (roomsFiles s)(r \<mapsto> [f])\<rparr>, [(adapter_rooms s r, FileAdded f 0)])"
  using assms by (simp add: on_add_file_def io_to_emit_def Let_def)

lemma add_file_throws:
  assumes "room_lookup s r = Inherited"
  shows "handle sid (AddFile r f) s = (s\<lparr>uncaught := Some TypeError\<rparr>, [])"
  using assms by (simp add: on_add_file_def)

text \<open>
  Claim C10. An add-file event for a room id that has no room should create the room
  with the pushed file as its only file, at index 0, without the default "main.py", and
  broadcast the file and the index 0 to the room. The creation is guarded by
  \<^verbatim>\<open>!roomsFiles[roomId]\<close> on a plain object: on a fresh server, for the room id
  \<^verbatim>\<open>constructor\<close>, the guard is false, \<^verbatim>\<open>push\<close> is called on the inherited member and
  throws a TypeError; no room is created and nothing is broadcast.
\<close>

theorem add_file_inherited_room_id_evaluated:
  "roomsFiles init ''constructor'' = None
   \<and> handle ''A'' (AddFile ''constructor'' \<lparr>name = ''a.py'', content = ''''\<rparr>) init
       = (init\<lparr>uncaught := Some TypeError\<rparr>, [])
   \<and> roomsFiles (fst (handle ''A'' (AddFile ''constructor'' \<lparr>name = ''a.py'', content = ''''\<rparr>) init))
        ''constructor'' = None"
  by (simp add: init_def on_add_file_def lookup_defs)

end
